theory Spec2Isabelle
  imports Complex_Main
begin

section \<open>Strings and the colour pattern\<close>

text \<open>
  A JavaScript string is modelled as a \<^typ>\<open>string\<close>; a \<^typ>\<open>char\<close> stands for a code
  unit below 256.  \<open>isSpace\<close> is the class \<open>\s\<close> of the regular expression, which is also
  the set of characters \<open>String.prototype.trim\<close> strips, restricted to that range: tab, line
  feed, vertical tab, form feed, carriage return, space and the no-break space.  \<open>isDigit\<close>
  is the class \<open>\d\<close>.  JavaScript numbers are modelled as real numbers.
\<close>

definition isSpace :: "char \<Rightarrow> bool" where
  "isSpace c = ((of_char c :: nat) \<in> {9, 10, 11, 12, 13, 32, 160})"

definition isDigit :: "char \<Rightarrow> bool" where
  "isDigit c = (48 \<le> (of_char c :: nat) \<and> (of_char c :: nat) \<le> 57)"

definition trim :: "string \<Rightarrow> string" where
  "trim s = rev (dropWhile isSpace (rev (dropWhile isSpace s)))"

text \<open>\<open>parseInt\<close> on a non-empty run of decimal digits, as the pattern's groups capture.\<close>

definition parseInt :: "string \<Rightarrow> nat" where
  "parseInt ds = foldl (\<lambda>n c. 10 * n + ((of_char c :: nat) - 48)) 0 ds"

fun stripPrefix :: "string \<Rightarrow> string \<Rightarrow> string option" where
  "stripPrefix [] s = Some s"
| "stripPrefix (p # ps) [] = None"
| "stripPrefix (p # ps) (c # cs) = (if p = c then stripPrefix ps cs else None)"

text \<open>
  The pattern of \<open>parseRgb\<close> is \<^verbatim>\<open>/rgba?\(\s*(\d+)\s*,\s*(\d+)\s*,\s*(\d+)/\<close>.
  \<open>matchNumber\<close> is \<^verbatim>\<open>\s*(\d+)\<close> and \<open>matchComma\<close> is \<^verbatim>\<open>\s*,\<close>.  The greedy quantifiers
  never need to give characters back: a shorter run of spaces or digits would leave a space
  or a digit in front of a position that accepts neither, and the optional \<open>a\<close> cannot be
  skipped when present, since \<open>(\<close> has to come next.  So one pass decides a match at a
  given start.  \<open>matchAt\<close> returns the three captured groups.
\<close>

definition matchNumber :: "string \<Rightarrow> (string \<times> string) option" where
  "matchNumber s =
     (let t = dropWhile isSpace s; d = takeWhile isDigit t
      in if d = [] then None else Some (d, dropWhile isDigit t))"

definition matchComma :: "string \<Rightarrow> string option" where
  "matchComma s =
     (case dropWhile isSpace s of
        [] \<Rightarrow> None
      | c # t \<Rightarrow> if c = CHR '','' then Some t else None)"

definition matchAt :: "string \<Rightarrow> (string \<times> string \<times> string) option" where
  "matchAt s =
     (case stripPrefix ''rgb'' s of
        None \<Rightarrow> None
      | Some s1 \<Rightarrow>
          (case stripPrefix ''('' (case stripPrefix ''a'' s1 of Some t \<Rightarrow> t | None \<Rightarrow> s1) of
             None \<Rightarrow> None
           | Some s2 \<Rightarrow>
               (case matchNumber s2 of
                  None \<Rightarrow> None
                | Some (m1, s3) \<Rightarrow>
                    (case matchComma s3 of
                       None \<Rightarrow> None
                     | Some s4 \<Rightarrow>
                         (case matchNumber s4 of
                            None \<Rightarrow> None
                          | Some (m2, s5) \<Rightarrow>
                              (case matchComma s5 of
                                 None \<Rightarrow> None
                               | Some s6 \<Rightarrow>
                                   (case matchNumber s6 of
                                      None \<Rightarrow> None
                                    | Some (m3, s7) \<Rightarrow> Some (m1, m2, m3))))))))"

text \<open>\<open>colorStr.match(...)\<close> without the global flag: the leftmost start that matches.\<close>

fun rgbMatch :: "string \<Rightarrow> (string \<times> string \<times> string) option" where
  "rgbMatch [] = matchAt []"
| "rgbMatch (c # cs) =
     (case matchAt (c # cs) of Some m \<Rightarrow> Some m | None \<Rightarrow> rgbMatch cs)"

section \<open>ColorModel\<close>

definition parseRgb :: "string \<Rightarrow> real \<times> real \<times> real" where
  "parseRgb colorStr =
     (case rgbMatch colorStr of
        None \<Rightarrow> (1, 1, 1)
      | Some (m1, m2, m3) \<Rightarrow>
          (real (parseInt m1) / 255, real (parseInt m2) / 255, real (parseInt m3) / 255))"

text \<open>The function mapped over the channels: the sRGB transfer function.\<close>

definition adjust :: "real \<Rightarrow> real" where
  "adjust val =
     (if val \<le> 0.03928 then val / 12.92 else ((val + 0.055) / 1.055) powr 2.4)"

definition getLuminance :: "string \<Rightarrow> real" where
  "getLuminance colorStr =
     (case parseRgb colorStr of
        (r, g, b) \<Rightarrow> 0.2126 * adjust r + 0.7152 * adjust g + 0.0722 * adjust b)"

text \<open>Number-to-string conversion of a non-negative integer, as \<open>"H" + lastLevel\<close> performs.\<close>

fun showNat :: "nat \<Rightarrow> string" where
  "showNat n =
     (if n < 10 then [char_of (48 + n)]
      else showNat (n div 10) @ [char_of (48 + n mod 10)])"

declare showNat.simps [simp del]

definition charAt :: "string \<Rightarrow> nat \<Rightarrow> string" where
  "charAt s i = (if i < length s then [s ! i] else [])"

section \<open>The scanned document\<close>

text \<open>
  An element as the scans read it: its identity; its local name (lower case for every
  element the HTML parser creates) and whether it is an HTML element or a foreign one
  (such as an SVG \<open>a\<close>); \<open>getAttribute("alt")\<close> (\<open>None\<close> is \<open>null\<close>); the \<open>src\<close> property (empty
  without a resource locator); whether it has a layout box, that is, whether it is
  rendered; whether its computed position is \<open>fixed\<close>; \<open>textContent\<close>; the computed \<open>color\<close>
  and \<open>backgroundColor\<close>; and \<open>parentElement\<close> (\<open>None\<close> is \<open>null\<close>).  A document is its root
  element and the list of its elements in document order, which is the order in which
  \<open>querySelectorAll\<close> returns them.
\<close>

datatype element = Element
  (nodeId: nat)
  (localName: string)
  (isHTMLElement: bool)
  (altAttr: "string option")
  (imgSrc: string)
  (hasLayoutBox: bool)
  (positionFixed: bool)
  (textContent: string)
  (computedColor: string)
  (computedBackgroundColor: string)
  (parentElement: "element option")

record document =
  documentElement :: element
  elements :: "element list"

text \<open>
  \<open>tagName\<close> is the local name in upper case for an HTML element and the local name as it is
  for a foreign element.
\<close>

definition toUpperChar :: "char \<Rightarrow> char" where
  "toUpperChar c =
     (if 97 \<le> (of_char c :: nat) \<and> (of_char c :: nat) \<le> 122
      then char_of ((of_char c :: nat) - 32) else c)"

definition tagName :: "element \<Rightarrow> string" where
  "tagName el = (if isHTMLElement el then map toUpperChar (localName el) else localName el)"

text \<open>
  The test \<open>el.offsetParent === null\<close>.  For an HTML element the browser returns \<open>null\<close> when
  the element is the root or the body element, when its position is \<open>fixed\<close>, or when it
  has no layout box.  A foreign element has no \<open>offsetParent\<close> property; the value read is
  \<open>undefined\<close> and the test is false.
\<close>

definition offsetParentNull :: "element \<Rightarrow> bool" where
  "offsetParentNull el =
     (isHTMLElement el \<and>
      (localName el = ''html'' \<or> localName el = ''body'' \<or> positionFixed el \<or>
       \<not> hasLayoutBox el))"

text \<open>
  A list of type selectors, each written in lower case as in the source, selects the
  elements with one of these local names, HTML or foreign.
\<close>

definition querySelectorAll :: "string list \<Rightarrow> document \<Rightarrow> element list" where
  "querySelectorAll tags doc = filter (\<lambda>e. localName e \<in> set tags) (elements doc)"

record issue =
  element :: element

record altIssue = issue +
  src :: string

record headingIssue = issue +
  current :: string
  previous :: string

record contrastIssue = issue +
  color :: string
  bg :: string

section \<open>AltTextDetector\<close>

fun altLoop :: "element list \<Rightarrow> altIssue list \<Rightarrow> altIssue list" where
  "altLoop [] results = results"
| "altLoop (img # images) results =
     (if (case altAttr img of None \<Rightarrow> True | Some altValue \<Rightarrow> trim altValue = [])
      then altLoop images
             (results @ [\<lparr>element = img,
                          src = (if imgSrc img \<noteq> [] then imgSrc img else ''(no src)'')\<rparr>])
      else altLoop images results)"

definition checkAltText :: "document \<Rightarrow> altIssue list" where
  "checkAltText doc = altLoop (querySelectorAll [''img''] doc) []"

section \<open>HeadingHierarchyDetector\<close>

definition headingLevel :: "element \<Rightarrow> nat" where
  "headingLevel h = parseInt (charAt (tagName h) 1)"

text \<open>The loop of \<open>checkHeadings\<close>; it returns \<open>results\<close> and the final \<open>lastLevel\<close>.\<close>

fun headingLoop ::
  "element list \<Rightarrow> nat \<Rightarrow> headingIssue list \<Rightarrow> headingIssue list \<times> nat" where
  "headingLoop [] lastLevel results = (results, lastLevel)"
| "headingLoop (h # headings) lastLevel results =
     (let level = headingLevel h
      in headingLoop headings level
           (if lastLevel \<noteq> 0 \<and> level > lastLevel + 1
            then results @ [\<lparr>element = h, current = tagName h,
                             previous = ''H'' @ showNat lastLevel\<rparr>]
            else results))"

definition headingTags :: "string list" where
  "headingTags = [''h1'', ''h2'', ''h3'', ''h4'', ''h5'', ''h6'']"

definition checkHeadings :: "document \<Rightarrow> headingIssue list" where
  "checkHeadings doc = fst (headingLoop (querySelectorAll headingTags doc) 0 [])"

section \<open>BackgroundResolver\<close>

text \<open>
  The loop of \<open>getBackgroundColor\<close> over \<open>current\<close>, which is an element or \<open>null\<close>.  Elements
  are compared by identity.
\<close>

fun backgroundWalk :: "element \<Rightarrow> element option \<Rightarrow> string" where
  "backgroundWalk docEl None = ''rgb(255, 255, 255)''"
| "backgroundWalk docEl (Some (Element n nm ht a s lb fx tc c bgc p)) =
     (if n = nodeId docEl then ''rgb(255, 255, 255)''
      else if bgc \<noteq> [] \<and> bgc \<noteq> ''rgba(0, 0, 0, 0)'' \<and> bgc \<noteq> ''transparent'' then bgc
      else backgroundWalk docEl p)"

definition getBackgroundColor :: "document \<Rightarrow> element \<Rightarrow> string" where
  "getBackgroundColor doc el = backgroundWalk (documentElement doc) (Some el)"

section \<open>ContrastDetector\<close>

text \<open>The test of \<open>checkContrast\<close> on the two luminances.\<close>

definition lightOnLight :: "real \<Rightarrow> real \<Rightarrow> bool" where
  "lightOnLight textLuminance bgLuminance = (textLuminance > 0.7 \<and> bgLuminance > 0.9)"

fun contrastLoop ::
  "document \<Rightarrow> element list \<Rightarrow> contrastIssue list \<Rightarrow> contrastIssue list" where
  "contrastLoop doc [] results = results"
| "contrastLoop doc (el # els) results =
     (if offsetParentNull el then contrastLoop doc els results
      else if trim (textContent el) = [] then contrastLoop doc els results
      else
        (let textColor = computedColor el;
             bgColor = getBackgroundColor doc el;
             textLuminance = getLuminance textColor;
             bgLuminance = getLuminance bgColor
         in if lightOnLight textLuminance bgLuminance
            then contrastLoop doc els
                   (results @ [\<lparr>element = el, color = textColor, bg = bgColor\<rparr>])
            else contrastLoop doc els results))"

definition textTags :: "string list" where
  "textTags = [''p'', ''span'', ''a'', ''li'', ''td'', ''th'', ''label'', ''div'',
               ''h1'', ''h2'', ''h3'', ''h4'', ''h5'', ''h6'']"

definition checkContrast :: "document \<Rightarrow> contrastIssue list" where
  "checkContrast doc = contrastLoop doc (querySelectorAll textTags doc) []"

section \<open>Highlighter\<close>

text \<open>
  The part of the page that \<open>highlightElement\<close> touches: the inline style of every element
  (by identity), the element last scrolled into view, the pending \<open>setTimeout\<close> callbacks
  and the clock in milliseconds.  A pending callback is the closure of \<open>highlightElement\<close>:
  the element and the two styles it saved.  \<open>removed\<close> lists the elements taken out of the
  document; an element object stays usable after that, and neither \<open>highlightElement\<close> nor
  its callback consults the document.
\<close>

record inlineStyle =
  outline :: string
  backgroundColor :: string

record timer =
  fireAt :: nat
  target :: nat
  savedOutline :: string
  savedBg :: string

record window =
  style :: "nat \<Rightarrow> inlineStyle"
  scrolledTo :: "nat option"
  timeouts :: "timer list"
  clock :: nat
  removed :: "nat list"

definition highlightElement :: "element \<Rightarrow> window \<Rightarrow> window" where
  "highlightElement el w =
     (let oldOutline = outline (style w (nodeId el));
          oldBg = backgroundColor (style w (nodeId el))
      in w\<lparr>style := (style w)(nodeId el := (style w (nodeId el))
                \<lparr>outline := ''3px solid red'', backgroundColor := ''rgba(255, 0, 0, 0.1)''\<rparr>),
           scrolledTo := Some (nodeId el),
           timeouts := timeouts w @
             [\<lparr>fireAt = clock w + 2000, target = nodeId el,
               savedOutline = oldOutline, savedBg = oldBg\<rparr>]\<rparr>)"

text \<open>The callback given to \<open>setTimeout\<close>.\<close>

definition restore :: "timer \<Rightarrow> window \<Rightarrow> window" where
  "restore t w =
     w\<lparr>style := (style w)(target t := (style w (target t))
          \<lparr>outline := savedOutline t, backgroundColor := savedBg t\<rparr>)\<rparr>"

text \<open>
  The event loop lets \<open>ms\<close> milliseconds pass: the callbacks that have come due run in
  the order of their times (callbacks due at the same time in the order they were set).
\<close>

definition elapse :: "nat \<Rightarrow> window \<Rightarrow> window" where
  "elapse ms w =
     (let now = clock w + ms;
          due = sort_key fireAt (filter (\<lambda>t. fireAt t \<le> now) (timeouts w))
      in fold restore due
           (w\<lparr>clock := now, timeouts := filter (\<lambda>t. \<not> fireAt t \<le> now) (timeouts w)\<rparr>))"

definition removeElement :: "element \<Rightarrow> window \<Rightarrow> window" where
  "removeElement el w = w\<lparr>removed := nodeId el # removed w\<rparr>"

section \<open>ReportPanel\<close>

subsection \<open>Sections and their entries\<close>

text \<open>
  A list entry carries its text and the two listeners added to it.  Both listeners are
  closures created inside the immediately invoked function, whose parameter
  \<open>issueElement\<close> is the only variable they read; the entry records the value bound to
  that parameter.  \<open>sectionLoop\<close> is the \<open>for\<close> loop over the index \<open>i\<close>.
\<close>

record li =
  liText :: string
  issueElement :: element

function sectionLoop ::
  "('a issue_scheme \<Rightarrow> string) \<Rightarrow> 'a issue_scheme list \<Rightarrow> nat \<Rightarrow> li list \<Rightarrow> li list" where
  "sectionLoop formatIssueFn issues i ul =
     (if i < length issues
      then sectionLoop formatIssueFn issues (Suc i)
             (ul @ [\<lparr>liText = formatIssueFn (issues ! i),
                     issueElement = element (issues ! i)\<rparr>])
      else ul)"
  by pat_completeness auto
termination
  by (relation "measure (\<lambda>(f, issues, i, ul). length issues - i)") auto

declare sectionLoop.simps [simp del]

record reportSection =
  sectionTitle :: string
  countText :: string
  passMsg :: "string option"
  issueList :: "li list"
  advice :: "string option"

definition createSection ::
  "string \<Rightarrow> 'a issue_scheme list \<Rightarrow> ('a issue_scheme \<Rightarrow> string) \<Rightarrow> string \<Rightarrow> reportSection" where
  "createSection title issues formatIssueFn adviceText =
     \<lparr>sectionTitle = title,
      countText =
        (if length issues = 0 then ''Pass''
         else showNat (length issues) @ (if length issues = 1 then '' issue'' else '' issues'')),
      passMsg = (if length issues = 0 then Some ''No issues found!'' else None),
      issueList = (if length issues = 0 then [] else sectionLoop formatIssueFn issues 0 []),
      advice = (if length issues = 0 then None else Some adviceText)\<rparr>"

text \<open>
  An event dispatched to an entry runs its listener for that event type; the result says
  whether \<open>preventDefault\<close> was called.
\<close>

datatype event = Click | Keydown string

definition dispatchLi :: "li \<Rightarrow> event \<Rightarrow> window \<Rightarrow> bool \<times> window" where
  "dispatchLi entry ev w =
     (case ev of
        Click \<Rightarrow> (False, highlightElement (issueElement entry) w)
      | Keydown key \<Rightarrow>
          if key = ''Enter'' \<or> key = '' ''
          then (True, highlightElement (issueElement entry) w)
          else (False, w))"

subsection \<open>The overlay and its Escape listener\<close>

text \<open>
  What the engine keeps in the page between invocations: the elements with id
  \<open>a11y-panel\<close> and with id \<open>a11y-panel-styles\<close>, in document order, and the \<open>keydown\<close>
  listeners registered on the document, in registration order.  Each invocation creates
  its own panel, style element and \<open>handleEsc\<close> closure; all three are named by the number
  of the invocation.  \<open>getElementById\<close> returns the first element with the id.
\<close>

record page =
  panels :: "nat list"
  panelStyles :: "nat list"
  keydownListeners :: "nat list"
  invocations :: nat

definition emptyPage :: page where
  "emptyPage = \<lparr>panels = [], panelStyles = [], keydownListeners = [], invocations = 0\<rparr>"

text \<open>One invocation of the content script, as far as the overlay is concerned.\<close>

definition runEngine :: "page \<Rightarrow> page" where
  "runEngine pg =
     (let pg1 = (case panels pg of [] \<Rightarrow> pg | oldPanel # ps \<Rightarrow> pg\<lparr>panels := ps\<rparr>);
          pg2 = (case panelStyles pg1 of [] \<Rightarrow> pg1 | oldStyle # ss \<Rightarrow> pg1\<lparr>panelStyles := ss\<rparr>);
          k = invocations pg2
      in pg2\<lparr>panelStyles := panelStyles pg2 @ [k],
             panels := panels pg2 @ [k],
             keydownListeners := keydownListeners pg2 @ [k],
             invocations := Suc k\<rparr>)"

text \<open>The click listener of the close button of invocation \<open>k\<close>: \<open>panel.remove()\<close>.\<close>

definition closeBtnClick :: "nat \<Rightarrow> page \<Rightarrow> page" where
  "closeBtnClick k pg = pg\<lparr>panels := removeAll k (panels pg)\<rparr>"

text \<open>The listener \<open>handleEsc\<close> of invocation \<open>k\<close>.\<close>

definition handleEsc :: "nat \<Rightarrow> string \<Rightarrow> page \<Rightarrow> page" where
  "handleEsc k key pg =
     (if key = ''Escape''
      then (case panels pg of
              [] \<Rightarrow> pg
            | p # ps \<Rightarrow> pg\<lparr>panels := ps, keydownListeners := removeAll k (keydownListeners pg)\<rparr>)
      else pg)"

text \<open>
  A \<open>keydown\<close> event on the document runs the listeners registered when it is dispatched,
  in order; a listener only ever removes itself.
\<close>

definition keydown :: "string \<Rightarrow> page \<Rightarrow> page" where
  "keydown key pg = fold (\<lambda>k. handleEsc k key) (keydownListeners pg) pg"

section \<open>Notions used to state the properties\<close>

text \<open>
  The positions of a heading sequence at which a level is skipped, in the words of the
  specification: a preceding heading exists and the level exceeds the level of the
  immediately preceding heading plus one.  \<open>skipIssue\<close> is the finding for a position.
\<close>

definition spec_skipAt :: "element list \<Rightarrow> nat \<Rightarrow> bool" where
  "spec_skipAt hs i = (0 < i \<and> headingLevel (hs ! i) > headingLevel (hs ! (i - 1)) + 1)"

definition skipIssue :: "element list \<Rightarrow> nat \<Rightarrow> headingIssue" where
  "skipIssue hs i =
     \<lparr>element = hs ! i, current = tagName (hs ! i),
      previous = ''H'' @ showNat (headingLevel (hs ! (i - 1)))\<rparr>"

text \<open>The chain of \<open>parentElement\<close> from an element (or \<open>null\<close>) upwards, itself first.\<close>

fun ancestorsFrom :: "element option \<Rightarrow> element list" where
  "ancestorsFrom None = []"
| "ancestorsFrom (Some (Element n nm ht a s lb fx tc c bgc p)) =
     Element n nm ht a s lb fx tc c bgc p # ancestorsFrom p"

text \<open>
  Full transparency in the words of the specification, read on a computed colour: the
  keyword \<open>transparent\<close>, or an \<open>rgba(r, g, b, a)\<close> whose alpha component \<open>a\<close> is \<open>0\<close>.
  \<open>alphaText\<close> is the text between the last comma and the closing parenthesis.
\<close>

definition alphaText :: "string \<Rightarrow> string" where
  "alphaText c =
     trim (takeWhile (\<lambda>x. x \<noteq> CHR '')'') (rev (takeWhile (\<lambda>x. x \<noteq> CHR '','') (rev c))))"

definition spec_fullyTransparent :: "string \<Rightarrow> bool" where
  "spec_fullyTransparent c =
     (c = ''transparent'' \<or> (stripPrefix ''rgba('' c \<noteq> None \<and> alphaText c = ''0''))"




section \<open>Example pages\<close>

definition htmlEl :: element where
  "htmlEl = Element 0 ''html'' True None [] True False [] ''rgb(0, 0, 0)''
     ''rgba(0, 0, 0, 0)'' None"

definition bodyEl :: element where
  "bodyEl = Element 1 ''body'' True None [] True False [] ''rgb(0, 0, 0)''
     ''rgb(255, 255, 255)'' (Some htmlEl)"

definition h1El :: element where
  "h1El = Element 2 ''h1'' True None [] True False ''Course'' ''rgb(0, 0, 0)''
     ''rgba(0, 0, 0, 0)'' (Some bodyEl)"

definition h3El :: element where
  "h3El = Element 3 ''h3'' True None [] True False ''Week 1'' ''rgb(255, 255, 255)''
     ''rgba(0, 0, 0, 0)'' (Some bodyEl)"

definition imgNoSrc :: element where
  "imgNoSrc = Element 4 ''img'' True None [] True False [] ''rgb(0, 0, 0)''
     ''rgba(0, 0, 0, 0)'' (Some bodyEl)"

definition imgBlankAlt :: element where
  "imgBlankAlt = Element 5 ''img'' True (Some ''  '') ''a.png'' True False [] ''rgb(0, 0, 0)''
     ''rgba(0, 0, 0, 0)'' (Some bodyEl)"

definition imgWithAlt :: element where
  "imgWithAlt = Element 6 ''img'' True (Some ''logo'') ''b.png'' True False [] ''rgb(0, 0, 0)''
     ''rgba(0, 0, 0, 0)'' (Some bodyEl)"

definition hiddenSpan :: element where
  "hiddenSpan = Element 7 ''span'' True None [] False False ''note'' ''rgb(255, 255, 255)''
     ''rgba(0, 0, 0, 0)'' (Some bodyEl)"

definition h2El :: element where
  "h2El = Element 8 ''h2'' True None [] True False ''Tasks'' ''rgb(0, 0, 0)''
     ''rgba(0, 0, 0, 0)'' (Some bodyEl)"

definition blankP :: element where
  "blankP = Element 9 ''p'' True None [] True False ''  '' ''rgb(255, 255, 255)''
     ''rgba(0, 0, 0, 0)'' (Some bodyEl)"

definition examplePage :: document where
  "examplePage =
     \<lparr>documentElement = htmlEl,
      elements = [htmlEl, bodyEl, h1El, h3El, imgNoSrc, imgBlankAlt, imgWithAlt,
                  hiddenSpan, h2El, blankP]\<rparr>"

text \<open>A dark block that holds a paragraph whose background is white with alpha zero.\<close>

definition darkDiv :: element where
  "darkDiv = Element 2 ''div'' True None [] True False ''hello'' ''rgb(255, 255, 255)''
     ''rgb(0, 0, 0)'' (Some bodyEl)"

definition clearP :: element where
  "clearP = Element 3 ''p'' True None [] True False ''hello'' ''rgb(255, 255, 255)''
     ''rgba(255, 255, 255, 0)'' (Some darkDiv)"

definition darkPage :: document where
  "darkPage = \<lparr>documentElement = htmlEl, elements = [htmlEl, bodyEl, darkDiv, clearP]\<rparr>"

text \<open>
  A banner with \<open>position: fixed\<close>: rendered, with white text on the white background of
  the body.
\<close>

definition fixedBanner :: element where
  "fixedBanner = Element 2 ''div'' True None [] True True ''Sale ends today''
     ''rgb(255, 255, 255)'' ''rgba(0, 0, 0, 0)'' (Some bodyEl)"

definition bannerPage :: document where
  "bannerPage = \<lparr>documentElement = htmlEl, elements = [htmlEl, bodyEl, fixedBanner]\<rparr>"

text \<open>A hidden link inside an inline SVG image: a foreign element without a layout box.\<close>

definition svgEl :: element where
  "svgEl = Element 2 ''svg'' False None [] False False ''more'' ''rgb(255, 255, 255)''
     ''rgba(0, 0, 0, 0)'' (Some bodyEl)"

definition svgLink :: element where
  "svgLink = Element 3 ''a'' False None [] False False ''more'' ''rgb(255, 255, 255)''
     ''rgba(0, 0, 0, 0)'' (Some svgEl)"

definition svgPage :: document where
  "svgPage = \<lparr>documentElement = htmlEl, elements = [htmlEl, bodyEl, svgEl, svgLink]\<rparr>"

definition emptyWindow :: window where
  "emptyWindow =
     \<lparr>style = (\<lambda>n. \<lparr>outline = [], backgroundColor = []\<rparr>), scrolledTo = None,
      timeouts = [], clock = 0, removed = []\<rparr>"

definition exampleAltIssues :: "altIssue list" where
  "exampleAltIssues =
     [\<lparr>element = imgNoSrc, src = ''(no src)''\<rparr>, \<lparr>element = imgBlankAlt, src = ''a.png''\<rparr>]"

section \<open>Facts about the colour pattern\<close>

lemmas pattern_defs =
  matchAt_def matchNumber_def matchComma_def isSpace_def isDigit_def parseInt_def

lemma digit_not_space: "isDigit c \<Longrightarrow> \<not> isSpace c"
  by (auto simp: isDigit_def isSpace_def)

lemma span_digits:
  assumes "\<forall>c\<in>set d. isDigit c" and "rest = [] \<or> \<not> isDigit (hd rest)"
  shows "takeWhile isDigit (d @ rest) = d" and "dropWhile isDigit (d @ rest) = rest"
  using assms by (induction d) (auto simp: takeWhile_eq_Nil_iff dropWhile_eq_self_iff)

lemma dropWhile_spaces:
  "\<forall>c\<in>set w. isSpace c \<Longrightarrow> dropWhile isSpace (w @ t) = dropWhile isSpace t"
  by (induction w) auto

lemma matchNumber_digits:
  assumes "d \<noteq> []" and "\<forall>c\<in>set d. isDigit c" and "\<forall>c\<in>set w. isSpace c"
    and "rest = [] \<or> \<not> isDigit (hd rest)"
  shows "matchNumber (w @ d @ rest) = Some (d, rest)"
proof -
  from assms(1,2) have "dropWhile isSpace (d @ rest) = d @ rest"
    by (cases d) (simp_all add: digit_not_space)
  with assms(3) have "dropWhile isSpace (w @ d @ rest) = d @ rest"
    by (simp add: dropWhile_spaces)
  moreover have "takeWhile isDigit (d @ rest) = d" "dropWhile isDigit (d @ rest) = rest"
    using span_digits [OF assms(2) assms(4)] by blast+
  ultimately show ?thesis
    using assms(1) by (simp only: matchNumber_def Let_def if_False)
qed

lemma matchComma_comma:
  "\<forall>c\<in>set w. isSpace c \<Longrightarrow> matchComma (w @ CHR '','' # t) = Some t"
  by (simp add: matchComma_def dropWhile_spaces isSpace_def)

lemma space_run_comma:
  "\<forall>c\<in>set w. isSpace c \<Longrightarrow> w @ CHR '','' # r = [] \<or> \<not> isDigit (hd (w @ CHR '','' # r))"
proof (cases w)
  case Nil
  then show ?thesis by (simp add: isDigit_def)
next
  case (Cons a list)
  assume "\<forall>c\<in>set w. isSpace c"
  with Cons have "isSpace a" by simp
  then have "\<not> isDigit a" using digit_not_space by blast
  with Cons show ?thesis by simp
qed

lemma matchAt_spaced:
  assumes "d1 \<noteq> []" "\<forall>c\<in>set d1. isDigit c" "d2 \<noteq> []" "\<forall>c\<in>set d2. isDigit c"
    "d3 \<noteq> []" "\<forall>c\<in>set d3. isDigit c"
    "\<forall>c\<in>set w1. isSpace c" "\<forall>c\<in>set w2. isSpace c" "\<forall>c\<in>set w3. isSpace c"
    "\<forall>c\<in>set w4. isSpace c" "\<forall>c\<in>set w5. isSpace c"
    "rest = [] \<or> \<not> isDigit (hd rest)"
  shows "matchAt (''rgba('' @ w1 @ d1 @ w2 @ '','' @ w3 @ d2 @ w4 @ '','' @ w5 @ d3 @ rest) =
           Some (d1, d2, d3)"
    and "matchAt (''rgb('' @ w1 @ d1 @ w2 @ '','' @ w3 @ d2 @ w4 @ '','' @ w5 @ d3 @ rest) =
           Some (d1, d2, d3)"
proof -
  have n1: "\<And>r. matchNumber (w1 @ d1 @ w2 @ CHR '','' # r) = Some (d1, w2 @ CHR '','' # r)"
    using matchNumber_digits [OF assms(1,2,7) space_run_comma [OF assms(8)]] by simp
  have n2: "\<And>r. matchNumber (w3 @ d2 @ w4 @ CHR '','' # r) = Some (d2, w4 @ CHR '','' # r)"
    using matchNumber_digits [OF assms(3,4,9) space_run_comma [OF assms(10)]] by simp
  have n3: "matchNumber (w5 @ d3 @ rest) = Some (d3, rest)"
    using matchNumber_digits [OF assms(5,6,11,12)] .
  have c1: "\<And>r. matchComma (w2 @ CHR '','' # r) = Some r"
    using matchComma_comma [OF assms(8)] .
  have c2: "\<And>r. matchComma (w4 @ CHR '','' # r) = Some r"
    using matchComma_comma [OF assms(10)] .
  show "matchAt (''rgba('' @ w1 @ d1 @ w2 @ '','' @ w3 @ d2 @ w4 @ '','' @ w5 @ d3 @ rest) =
           Some (d1, d2, d3)"
    by (simp add: matchAt_def n1 n2 n3 c1 c2)
  show "matchAt (''rgb('' @ w1 @ d1 @ w2 @ '','' @ w3 @ d2 @ w4 @ '','' @ w5 @ d3 @ rest) =
           Some (d1, d2, d3)"
    by (simp add: matchAt_def n1 n2 n3 c1 c2)
qed

lemma rgbMatch_spaced:
  assumes "d1 \<noteq> []" "\<forall>c\<in>set d1. isDigit c" "d2 \<noteq> []" "\<forall>c\<in>set d2. isDigit c"
    "d3 \<noteq> []" "\<forall>c\<in>set d3. isDigit c"
    "\<forall>c\<in>set w1. isSpace c" "\<forall>c\<in>set w2. isSpace c" "\<forall>c\<in>set w3. isSpace c"
    "\<forall>c\<in>set w4. isSpace c" "\<forall>c\<in>set w5. isSpace c"
    "rest = [] \<or> \<not> isDigit (hd rest)"
  shows "rgbMatch (''rgba('' @ w1 @ d1 @ w2 @ '','' @ w3 @ d2 @ w4 @ '','' @ w5 @ d3 @ rest) =
           Some (d1, d2, d3)"
    and "rgbMatch (''rgb('' @ w1 @ d1 @ w2 @ '','' @ w3 @ d2 @ w4 @ '','' @ w5 @ d3 @ rest) =
           Some (d1, d2, d3)"
  using matchAt_spaced [OF assms] by simp_all

lemma parseRgb_white: "parseRgb ''rgb(255, 255, 255)'' = (1, 1, 1)"
  by (simp add: parseRgb_def pattern_defs)

lemma parseRgb_black: "parseRgb ''rgb(0, 0, 0)'' = (0, 0, 0)"
  by (simp add: parseRgb_def pattern_defs)

lemma getLuminance_white: "getLuminance ''rgb(255, 255, 255)'' = 1"
  by (simp add: getLuminance_def parseRgb_white adjust_def)

lemma getLuminance_black: "getLuminance ''rgb(0, 0, 0)'' = 0"
  by (simp add: getLuminance_def parseRgb_black adjust_def)

section \<open>ColorModel: properties\<close>

text \<open>
  C5.  The luminance of pure white \<open>rgb(255, 255, 255)\<close> is exactly 1 and that of pure
  black \<open>rgb(0, 0, 0)\<close> is exactly 0; a string that the pattern does not match anywhere
  parses to the same triple as explicit white and has the same luminance.  \<open>getLuminance\<close>
  has no failing branch: it returns a number for every string.
\<close>

theorem luminance_white_black_unparsable:
  "getLuminance ''rgb(255, 255, 255)'' = 1 \<and>
   getLuminance ''rgb(0, 0, 0)'' = 0 \<and>
   (rgbMatch s = None \<longrightarrow>
      parseRgb s = parseRgb ''rgb(255, 255, 255)'' \<and>
      getLuminance s = getLuminance ''rgb(255, 255, 255)'')"
proof -
  have p: "rgbMatch s = None \<Longrightarrow> parseRgb s = parseRgb ''rgb(255, 255, 255)''"
    by (simp add: parseRgb_white) (simp add: parseRgb_def)
  then have "rgbMatch s = None \<Longrightarrow> getLuminance s = getLuminance ''rgb(255, 255, 255)''"
    by (simp add: getLuminance_def)
  with p show ?thesis
    by (simp add: getLuminance_white getLuminance_black)
qed

theorem luminance_white_black_unparsable_witness:
  "rgbMatch ''oklch(0.9 0.1 200)'' = None \<and> getLuminance ''oklch(0.9 0.1 200)'' = 1"
proof -
  have n: "rgbMatch ''oklch(0.9 0.1 200)'' = None"
    by (simp add: pattern_defs)
  with luminance_white_black_unparsable [of "''oklch(0.9 0.1 200)''"] show ?thesis
    by simp
qed

text \<open>
  \<open>parseRgb\<close> itself does not clamp: on a string with a channel above 255, which no
  computed colour has, the parsed channel is above 1.
\<close>

lemma parseRgb_no_clamp: "parseRgb ''rgb(300, 0, 0)'' = (300 / 255, 0, 0)"
  by (simp add: parseRgb_def pattern_defs)







text \<open>
  C10.  Take a colour string that the pattern matches at its start: \<open>rgb(\<close> or \<open>rgba(\<close>,
  then three numbers separated by commas, with any white space around them.  Whatever
  follows the third number (the alpha component, if there is one) and whether or not the
  function name ends in \<open>a\<close>, the parsed triple is the three numbers over 255 and the
  luminance is the same: \<open>rgba(r, g, b, a)\<close>, \<open>rgba(r, g, b, a')\<close> and \<open>rgb(r, g, b)\<close> agree.
\<close>

theorem alpha_never_influences:
  assumes "d1 \<noteq> []" "\<forall>c\<in>set d1. isDigit c" "d2 \<noteq> []" "\<forall>c\<in>set d2. isDigit c"
    "d3 \<noteq> []" "\<forall>c\<in>set d3. isDigit c"
    "\<forall>c\<in>set w1. isSpace c" "\<forall>c\<in>set w2. isSpace c" "\<forall>c\<in>set w3. isSpace c"
    "\<forall>c\<in>set w4. isSpace c" "\<forall>c\<in>set w5. isSpace c"
  shows
    "parseRgb (''rgba('' @ w1 @ d1 @ w2 @ '','' @ w3 @ d2 @ w4 @ '','' @ w5 @ d3 @ '','' @ alpha) =
       parseRgb (''rgb('' @ w1 @ d1 @ w2 @ '','' @ w3 @ d2 @ w4 @ '','' @ w5 @ d3 @ '')'') \<and>
     parseRgb (''rgba('' @ w1 @ d1 @ w2 @ '','' @ w3 @ d2 @ w4 @ '','' @ w5 @ d3 @ '','' @ alpha) =
       parseRgb (''rgba('' @ w1 @ d1 @ w2 @ '','' @ w3 @ d2 @ w4 @ '','' @ w5 @ d3 @ '','' @ alpha') \<and>
     parseRgb (''rgba('' @ w1 @ d1 @ w2 @ '','' @ w3 @ d2 @ w4 @ '','' @ w5 @ d3 @ '','' @ alpha) =
       (real (parseInt d1) / 255, real (parseInt d2) / 255, real (parseInt d3) / 255) \<and>
     getLuminance (''rgba('' @ w1 @ d1 @ w2 @ '','' @ w3 @ d2 @ w4 @ '','' @ w5 @ d3 @ '','' @ alpha) =
       getLuminance (''rgb('' @ w1 @ d1 @ w2 @ '','' @ w3 @ d2 @ w4 @ '','' @ w5 @ d3 @ '')'') \<and>
     getLuminance (''rgba('' @ w1 @ d1 @ w2 @ '','' @ w3 @ d2 @ w4 @ '','' @ w5 @ d3 @ '','' @ alpha) =
       getLuminance (''rgba('' @ w1 @ d1 @ w2 @ '','' @ w3 @ d2 @ w4 @ '','' @ w5 @ d3 @ '','' @ alpha')"
proof -
  have a: "\<And>x. rgbMatch (''rgba('' @ w1 @ d1 @ w2 @ '','' @ w3 @ d2 @ w4 @ '','' @ w5 @ d3 @ '','' @ x)
      = Some (d1, d2, d3)"
    using rgbMatch_spaced(1) [OF assms, of "'','' @ x" for x] by (simp add: isDigit_def)
  have b: "rgbMatch (''rgb('' @ w1 @ d1 @ w2 @ '','' @ w3 @ d2 @ w4 @ '','' @ w5 @ d3 @ '')'')
      = Some (d1, d2, d3)"
    using rgbMatch_spaced(2) [OF assms, of "'')''"] by (simp add: isDigit_def)
  show ?thesis
    by (simp only: parseRgb_def getLuminance_def a b option.case prod.case simp_thms)
qed

theorem alpha_never_influences_witness:
  "parseRgb ''rgba(255, 0, 12, 0.5)'' = parseRgb ''rgb(255, 0, 12)'' \<and>
   parseRgb ''rgba(255, 0, 12, 0.5)'' = (1, 0, 12 / 255) \<and>
   getLuminance ''rgba(255, 0, 12, 0.5)'' = getLuminance ''rgb(255, 0, 12)''"
proof -
  have d: "''255'' \<noteq> []" "\<forall>c\<in>set ''255''. isDigit c" "''0'' \<noteq> []" "\<forall>c\<in>set ''0''. isDigit c"
    "''12'' \<noteq> []" "\<forall>c\<in>set ''12''. isDigit c"
    by (simp_all add: isDigit_def)
  have w: "\<forall>c\<in>set []. isSpace c" "\<forall>c\<in>set []. isSpace c" "\<forall>c\<in>set '' ''. isSpace c"
    "\<forall>c\<in>set []. isSpace c" "\<forall>c\<in>set '' ''. isSpace c"
    by (simp_all add: isSpace_def)
  from alpha_never_influences [OF d w, of "'' 0.5)''" "'' 1)''"] show ?thesis
    by (elim conjE) (simp add: parseInt_def)
qed

section \<open>The loops as list functions\<close>

lemmas example_defs =
  examplePage_def htmlEl_def bodyEl_def h1El_def h3El_def imgNoSrc_def imgBlankAlt_def
  imgWithAlt_def hiddenSpan_def h2El_def blankP_def

lemma altLoop_eq:
  "altLoop images results =
     results @ map (\<lambda>img. \<lparr>element = img,
                        src = (if imgSrc img \<noteq> [] then imgSrc img else ''(no src)'')\<rparr>)
       (filter (\<lambda>img. case altAttr img of None \<Rightarrow> True | Some altValue \<Rightarrow> trim altValue = [])
          images)"
  by (induction images arbitrary: results) auto

lemma contrastLoop_eq:
  "contrastLoop doc els results =
     results @ map (\<lambda>el. \<lparr>element = el, color = computedColor el,
                         bg = getBackgroundColor doc el\<rparr>)
       (filter (\<lambda>el. \<not> offsetParentNull el \<and> trim (textContent el) \<noteq> [] \<and>
                  lightOnLight (getLuminance (computedColor el))
                    (getLuminance (getBackgroundColor doc el))) els)"
  by (induction els arbitrary: results) (auto simp: Let_def)

lemma backgroundWalk_eq:
  "backgroundWalk docEl cur =
     (case find (\<lambda>a. computedBackgroundColor a \<noteq> [] \<and>
                   computedBackgroundColor a \<noteq> ''rgba(0, 0, 0, 0)'' \<and>
                   computedBackgroundColor a \<noteq> ''transparent'')
             (takeWhile (\<lambda>a. nodeId a \<noteq> nodeId docEl) (ancestorsFrom cur)) of
        None \<Rightarrow> ''rgb(255, 255, 255)''
      | Some a \<Rightarrow> computedBackgroundColor a)"
  by (induction docEl cur rule: backgroundWalk.induct) auto

lemma sectionLoop_eq:
  "sectionLoop f issues i ul =
     ul @ map (\<lambda>x. \<lparr>liText = f x, issueElement = element x\<rparr>) (drop i issues)"
proof (induction f issues i ul rule: sectionLoop.induct)
  case (1 f issues i ul)
  show ?case
  proof (cases "i < length issues")
    case True
    then have "drop i issues = issues ! i # drop (Suc i) issues"
      by (simp add: Cons_nth_drop_Suc)
    with True 1 show ?thesis by (subst sectionLoop.simps) simp
  next
    case False
    then show ?thesis by (subst sectionLoop.simps) simp
  qed
qed

lemma headingLoop_append:
  "headingLoop (xs @ ys) l rs =
     (case headingLoop xs l rs of (rs', l') \<Rightarrow> headingLoop ys l' rs')"
  by (induction xs arbitrary: l rs) (auto simp: Let_def)

lemma skipAt_snoc: "i < length hs \<Longrightarrow> spec_skipAt (hs @ [h]) i = spec_skipAt hs i"
  by (auto simp: spec_skipAt_def nth_append)

lemma skipIssue_snoc: "i < length hs \<Longrightarrow> skipIssue (hs @ [h]) i = skipIssue hs i"
  by (auto simp: skipIssue_def nth_append)

lemma skips_snoc:
  "map (skipIssue (hs @ [h])) (filter (spec_skipAt (hs @ [h])) [0..<length hs]) =
   map (skipIssue hs) (filter (spec_skipAt hs) [0..<length hs])"
proof -
  have "filter (spec_skipAt (hs @ [h])) [0..<length hs] = filter (spec_skipAt hs) [0..<length hs]"
    by (rule filter_cong) (simp_all add: skipAt_snoc)
  moreover have "map (skipIssue (hs @ [h])) (filter (spec_skipAt hs) [0..<length hs]) =
      map (skipIssue hs) (filter (spec_skipAt hs) [0..<length hs])"
    by (rule map_cong) (simp_all add: skipIssue_snoc)
  ultimately show ?thesis by simp
qed

lemma headingLoop_single:
  "headingLoop [h] l rs =
     (if l \<noteq> 0 \<and> headingLevel h > l + 1
      then rs @ [\<lparr>element = h, current = tagName h, previous = ''H'' @ showNat l\<rparr>]
      else rs, headingLevel h)"
  by (simp add: Let_def)

lemma headingLoop_eq:
  assumes "\<forall>h\<in>set hs. 0 < headingLevel h"
  shows "headingLoop hs 0 [] =
     (map (skipIssue hs) (filter (spec_skipAt hs) [0..<length hs]),
      if hs = [] then 0 else headingLevel (last hs))"
  using assms
proof (induction hs rule: rev_induct)
  case Nil
  then show ?case by simp
next
  case (snoc h hs)
  have IH: "headingLoop hs 0 [] =
     (map (skipIssue hs) (filter (spec_skipAt hs) [0..<length hs]),
      if hs = [] then 0 else headingLevel (last hs))"
    using snoc by simp
  have split: "headingLoop (hs @ [h]) 0 [] =
      headingLoop [h] (if hs = [] then 0 else headingLevel (last hs))
        (map (skipIssue hs) (filter (spec_skipAt hs) [0..<length hs]))"
    by (simp only: headingLoop_append IH prod.case)
  have upt: "[0..<length (hs @ [h])] = [0..<length hs] @ [length hs]"
    by simp
  show ?case
  proof (cases "hs = []")
    case True
    then show ?thesis
      by (simp add: spec_skipAt_def Let_def)
  next
    case False
    then have pos: "0 < headingLevel (last hs)"
      using snoc.prems by simp
    have prev: "(hs @ [h]) ! (length hs - Suc 0) = last hs"
      using False by (simp add: nth_append last_conv_nth)
    have at: "spec_skipAt (hs @ [h]) (length hs) = (headingLevel h > headingLevel (last hs) + 1)"
      using False by (simp add: spec_skipAt_def prev)
    have iss: "skipIssue (hs @ [h]) (length hs) =
        \<lparr>element = h, current = tagName h,
         previous = ''H'' @ showNat (headingLevel (last hs))\<rparr>"
      by (simp add: skipIssue_def prev)
    have "headingLoop (hs @ [h]) 0 [] =
        (if headingLevel h > headingLevel (last hs) + 1
         then map (skipIssue hs) (filter (spec_skipAt hs) [0..<length hs]) @
              [\<lparr>element = h, current = tagName h,
                previous = ''H'' @ showNat (headingLevel (last hs))\<rparr>]
         else map (skipIssue hs) (filter (spec_skipAt hs) [0..<length hs]), headingLevel h)"
      using False pos by (simp only: split headingLoop_single if_False) simp
    moreover have
      "map (skipIssue (hs @ [h])) (filter (spec_skipAt (hs @ [h])) [0..<length (hs @ [h])]) =
        (if headingLevel h > headingLevel (last hs) + 1
         then map (skipIssue hs) (filter (spec_skipAt hs) [0..<length hs]) @
              [\<lparr>element = h, current = tagName h,
                previous = ''H'' @ showNat (headingLevel (last hs))\<rparr>]
         else map (skipIssue hs) (filter (spec_skipAt hs) [0..<length hs]))"
      by (simp only: upt filter_append map_append skips_snoc filter.simps at iss list.map
          split: if_split) simp
    ultimately show ?thesis by simp
  qed
qed

lemma heading_selected_level:
  "h \<in> set (querySelectorAll headingTags doc) \<Longrightarrow> 1 \<le> headingLevel h \<and> headingLevel h \<le> 6"
  by (auto simp: querySelectorAll_def headingTags_def headingLevel_def charAt_def parseInt_def
      tagName_def toUpperChar_def)

lemma showNat_1: "showNat (Suc 0) = ''1''"
  by code_simp

lemma upper_h3: "toUpperChar CHR ''h'' = CHR ''H''" "toUpperChar CHR ''3'' = CHR ''3''"
  by code_simp+

section \<open>Detectors: properties\<close>

text \<open>
  C2.  Let \<open>hs\<close> be the headings of a document in document order.  \<open>checkHeadings\<close> returns
  one finding for each position \<open>i\<close> such that a preceding heading exists and the level
  at \<open>i\<close> exceeds the level at \<open>i - 1\<close> plus one (\<open>spec_skipAt\<close>), in order, and for no other
  position; a sequence whose levels never increase gives no finding; and after each
  heading, whether it gave a finding or not, \<open>lastLevel\<close> is the level of that heading.
\<close>

theorem checkHeadings_skips:
  assumes "hs = querySelectorAll headingTags doc"
  shows "checkHeadings doc = map (skipIssue hs) (filter (spec_skipAt hs) [0..<length hs]) \<and>
    ((\<forall>i. Suc i < length hs \<longrightarrow> headingLevel (hs ! Suc i) \<le> headingLevel (hs ! i)) \<longrightarrow>
       checkHeadings doc = []) \<and>
    (\<forall>n. 0 < n \<and> n \<le> length hs \<longrightarrow>
       snd (headingLoop (take n hs) 0 []) = headingLevel (hs ! (n - 1)))"
proof -
  have pos: "\<forall>h\<in>set hs. 0 < headingLevel h"
    using heading_selected_level [of _ doc] assms by fastforce
  have eq: "checkHeadings doc = map (skipIssue hs) (filter (spec_skipAt hs) [0..<length hs])"
    using headingLoop_eq [OF pos] assms by (simp add: checkHeadings_def)
  have dec: "checkHeadings doc = []"
    if d: "\<forall>i. Suc i < length hs \<longrightarrow> headingLevel (hs ! Suc i) \<le> headingLevel (hs ! i)"
  proof -
    have "\<not> spec_skipAt hs i" if "i < length hs" for i
    proof (cases i)
      case 0
      then show ?thesis by (simp add: spec_skipAt_def)
    next
      case (Suc j)
      with d that have "headingLevel (hs ! Suc j) \<le> headingLevel (hs ! j)" by simp
      with Suc show ?thesis by (simp add: spec_skipAt_def)
    qed
    then have "filter (spec_skipAt hs) [0..<length hs] = []"
      by (simp add: filter_empty_conv)
    with eq show ?thesis by simp
  qed
  have last: "snd (headingLoop (take n hs) 0 []) = headingLevel (hs ! (n - 1))"
    if n: "0 < n \<and> n \<le> length hs" for n
  proof -
    from n have n1: "0 < n" and n2: "n \<le> length hs" by simp_all
    have p: "\<forall>h\<in>set (take n hs). 0 < headingLevel h"
      using pos by (meson in_set_takeD)
    have ne: "take n hs \<noteq> []" using n1 n2 by auto
    have "last (take n hs) = hs ! (n - 1)"
      using n1 n2 ne by (simp add: last_conv_nth min_def)
    with headingLoop_eq [OF p] ne show ?thesis by simp
  qed
  from eq dec last show ?thesis by blast
qed

theorem checkHeadings_skips_witness:
  "querySelectorAll headingTags examplePage = [h1El, h3El, h2El] \<and>
   map current (checkHeadings examplePage) = [''H3''] \<and>
   map previous (checkHeadings examplePage) = [''H1''] \<and>
   map element (checkHeadings examplePage) = [h3El] \<and>
   snd (headingLoop (take 3 [h1El, h3El, h2El]) 0 []) = 2"
proof -
  have q: "querySelectorAll headingTags examplePage = [h1El, h3El, h2El]"
    by (simp add: querySelectorAll_def headingTags_def example_defs)
  have u: "[0..<3] = [0, 1, 2]"
    by (simp add: upt_rec)
  have l: "headingLevel h1El = 1" "headingLevel h3El = 3" "headingLevel h2El = 2"
    by (simp_all add: headingLevel_def charAt_def parseInt_def h1El_def h3El_def h2El_def
        tagName_def toUpperChar_def)
  have t: "tagName h3El = ''H3''"
    by (simp add: h3El_def tagName_def upper_h3)
  note T = checkHeadings_skips [OF q [symmetric]]
  from T have "checkHeadings examplePage =
      map (skipIssue [h1El, h3El, h2El])
        (filter (spec_skipAt [h1El, h3El, h2El]) [0..<length [h1El, h3El, h2El]])"
    by (rule conjunct1)
  then have A: "checkHeadings examplePage = [skipIssue [h1El, h3El, h2El] 1]"
    by (simp add: spec_skipAt_def l)
  from T have "\<forall>n. 0 < n \<and> n \<le> length [h1El, h3El, h2El] \<longrightarrow>
      snd (headingLoop (take n [h1El, h3El, h2El]) 0 []) =
      headingLevel ([h1El, h3El, h2El] ! (n - 1))"
    by (rule conjunct2 [THEN conjunct2])
  then have "0 < (3::nat) \<and> 3 \<le> length [h1El, h3El, h2El] \<longrightarrow>
      snd (headingLoop (take 3 [h1El, h3El, h2El]) 0 []) =
      headingLevel ([h1El, h3El, h2El] ! (3 - 1))"
    by (rule spec)
  then have B: "snd (headingLoop (take 3 [h1El, h3El, h2El]) 0 []) = 2"
    by (simp add: l)
  show ?thesis
    by (simp add: q A B skipIssue_def l t showNat_1)
qed

text \<open>
  C3.  The findings of \<open>checkAltText\<close> are, in document order, exactly the \<open>img\<close> elements
  whose \<open>alt\<close> attribute is \<open>null\<close> or empty after trimming, so their number is the number
  of such images; an image with an empty \<open>src\<close> still gives a finding, whose \<open>src\<close> is the
  placeholder \<open>(no src)\<close>, and no finding has an empty \<open>src\<close>.
\<close>

theorem checkAltText_findings:
  "map element (checkAltText doc) =
     filter (\<lambda>img. case altAttr img of None \<Rightarrow> True | Some altValue \<Rightarrow> trim altValue = [])
       (querySelectorAll [''img''] doc) \<and>
   length (checkAltText doc) =
     length (filter (\<lambda>img. case altAttr img of None \<Rightarrow> True | Some altValue \<Rightarrow> trim altValue = [])
       (querySelectorAll [''img''] doc)) \<and>
   (\<forall>f \<in> set (checkAltText doc).
      src f \<noteq> [] \<and>
      (imgSrc (element f) = [] \<longrightarrow> src f = ''(no src)'') \<and>
      (imgSrc (element f) \<noteq> [] \<longrightarrow> src f = imgSrc (element f)))"
  by (auto simp: checkAltText_def altLoop_eq comp_def)

theorem checkAltText_findings_witness:
  "querySelectorAll [''img''] examplePage = [imgNoSrc, imgBlankAlt, imgWithAlt] \<and>
   map element (checkAltText examplePage) = [imgNoSrc, imgBlankAlt] \<and>
   length (checkAltText examplePage) = 2 \<and>
   imgSrc imgNoSrc = [] \<and>
   checkAltText examplePage = exampleAltIssues"
proof -
  have q: "querySelectorAll [''img''] examplePage = [imgNoSrc, imgBlankAlt, imgWithAlt]"
    by (simp add: querySelectorAll_def example_defs)
  have a: "altAttr imgNoSrc = None" "altAttr imgBlankAlt = Some ''  ''"
    "altAttr imgWithAlt = Some ''logo''" "imgSrc imgNoSrc = []" "imgSrc imgBlankAlt = ''a.png''"
    by (simp_all add: imgNoSrc_def imgBlankAlt_def imgWithAlt_def)
  have t: "trim ''  '' = []" "trim ''logo'' \<noteq> []"
    by (simp_all add: trim_def isSpace_def)
  have e: "checkAltText examplePage = exampleAltIssues"
    by (simp add: checkAltText_def q a t exampleAltIssues_def)
  from checkAltText_findings [of examplePage] show ?thesis
    by (simp add: q a t e)
qed

text \<open>
  What \<open>checkContrast\<close> returns: in document order, the scanned elements for which the
  test on \<open>offsetParent\<close> fails, whose trimmed text is not empty, and whose text luminance
  is above 0.7 on a resolved background of luminance above 0.9.
\<close>

lemma checkContrast_eq:
  "map element (checkContrast doc) =
     filter (\<lambda>el. \<not> offsetParentNull el \<and> trim (textContent el) \<noteq> [] \<and>
                getLuminance (computedColor el) > 0.7 \<and>
                getLuminance (getBackgroundColor doc el) > 0.9)
       (querySelectorAll textTags doc)"
  by (auto simp: checkContrast_def contrastLoop_eq comp_def lightOnLight_def)

lemma lightOnLight_points: "lightOnLight 0.95 0.98 \<and> \<not> lightOnLight 0.95 0.5"
  by (simp add: lightOnLight_def)

text \<open>
  C4 at the failing input.  A banner with \<open>position: fixed\<close> is scanned, is rendered (it has
  a layout box), has non-empty text, and both its text luminance and the luminance of its
  resolved background are 1, above 0.7 and 0.9.  Its \<open>offsetParent\<close> is \<open>null\<close> all the same,
  so \<open>checkContrast\<close> skips it as if it were hidden and reports nothing.
\<close>

theorem fixed_element_not_flagged:
  "fixedBanner \<in> set (querySelectorAll textTags bannerPage) \<and>
   hasLayoutBox fixedBanner \<and> positionFixed fixedBanner \<and>
   trim (textContent fixedBanner) \<noteq> [] \<and>
   getLuminance (computedColor fixedBanner) = 1 \<and>
   getLuminance (getBackgroundColor bannerPage fixedBanner) = 1 \<and>
   lightOnLight (getLuminance (computedColor fixedBanner))
     (getLuminance (getBackgroundColor bannerPage fixedBanner)) \<and>
   offsetParentNull fixedBanner \<and>
   checkContrast bannerPage = []"
proof -
  have q: "querySelectorAll textTags bannerPage = [fixedBanner]"
    by (simp add: querySelectorAll_def textTags_def bannerPage_def fixedBanner_def htmlEl_def
        bodyEl_def)
  have b: "getBackgroundColor bannerPage fixedBanner = ''rgb(255, 255, 255)''"
    by (simp add: getBackgroundColor_def bannerPage_def fixedBanner_def htmlEl_def bodyEl_def)
  have c: "computedColor fixedBanner = ''rgb(255, 255, 255)''"
    by (simp add: fixedBanner_def)
  have f: "hasLayoutBox fixedBanner" "positionFixed fixedBanner" "offsetParentNull fixedBanner"
    by (simp_all add: fixedBanner_def offsetParentNull_def)
  have t: "trim (textContent fixedBanner) \<noteq> []"
    by (simp add: fixedBanner_def trim_def isSpace_def)
  have r: "checkContrast bannerPage = []"
    by (simp add: checkContrast_def q f)
  show ?thesis
    by (simp add: q b c f t r getLuminance_white lightOnLight_def)
qed

text \<open>
  A foreign element is never skipped by the test on \<open>offsetParent\<close>: the hidden link of an
  inline SVG image, which has no layout box, is reported.
\<close>

lemma hidden_svg_link_flagged:
  "\<not> hasLayoutBox svgLink \<and> map element (checkContrast svgPage) = [svgLink]"
proof -
  have q: "querySelectorAll textTags svgPage = [svgLink]"
    by (simp add: querySelectorAll_def textTags_def svgPage_def svgLink_def svgEl_def htmlEl_def
        bodyEl_def)
  have b: "getBackgroundColor svgPage svgLink = ''rgb(255, 255, 255)''"
    by (simp add: getBackgroundColor_def svgPage_def svgLink_def svgEl_def htmlEl_def bodyEl_def)
  have e: "\<not> offsetParentNull svgLink" "\<not> hasLayoutBox svgLink"
    "trim (textContent svgLink) \<noteq> []" "computedColor svgLink = ''rgb(255, 255, 255)''"
    by (simp_all add: offsetParentNull_def svgLink_def trim_def isSpace_def)
  show ?thesis
    by (simp add: checkContrast_eq q b e getLuminance_white)
qed

section \<open>BackgroundResolver: properties\<close>

text \<open>
  What \<open>getBackgroundColor\<close> returns: the first computed background colour, on the chain
  of \<open>parentElement\<close> from the element itself up to but not including the document root,
  that is not the empty string and is neither of the two strings \<open>rgba(0, 0, 0, 0)\<close> and
  \<open>transparent\<close>; \<open>rgb(255, 255, 255)\<close> when there is none.
\<close>

lemma getBackgroundColor_first_listed:
  "getBackgroundColor doc el =
     (case find (\<lambda>a. computedBackgroundColor a \<noteq> [] \<and>
                   computedBackgroundColor a \<noteq> ''rgba(0, 0, 0, 0)'' \<and>
                   computedBackgroundColor a \<noteq> ''transparent'')
             (takeWhile (\<lambda>a. nodeId a \<noteq> nodeId (documentElement doc))
                (ancestorsFrom (Some el))) of
        None \<Rightarrow> ''rgb(255, 255, 255)''
      | Some a \<Rightarrow> computedBackgroundColor a)"
  by (simp only: getBackgroundColor_def backgroundWalk_eq)

text \<open>
  C7 at the failing input.  A paragraph whose computed background is
  \<open>rgba(255, 255, 255, 0)\<close>, fully transparent, lies inside a block whose background is
  \<open>rgb(0, 0, 0)\<close>.  The first colour on the chain that is not fully transparent is the
  block's; \<open>getBackgroundColor\<close> returns the paragraph's transparent one, because it
  compares the string with two spellings of transparency only.  The white text of the
  paragraph, which stands on black, is then reported by \<open>checkContrast\<close> as light text on
  a light background.
\<close>

theorem getBackgroundColor_returns_transparent:
  "getBackgroundColor darkPage clearP = ''rgba(255, 255, 255, 0)'' \<and>
   spec_fullyTransparent (getBackgroundColor darkPage clearP) \<and>
   find (\<lambda>a. \<not> spec_fullyTransparent (computedBackgroundColor a))
     (takeWhile (\<lambda>a. nodeId a \<noteq> nodeId (documentElement darkPage))
        (ancestorsFrom (Some clearP))) = Some darkDiv \<and>
   computedBackgroundColor darkDiv = ''rgb(0, 0, 0)'' \<and>
   map element (checkContrast darkPage) = [clearP]"
proof -
  have g: "getBackgroundColor darkPage clearP = ''rgba(255, 255, 255, 0)''"
    "getBackgroundColor darkPage darkDiv = ''rgb(0, 0, 0)''"
    by (simp_all add: getBackgroundColor_def darkPage_def clearP_def darkDiv_def bodyEl_def
        htmlEl_def)
  have t: "spec_fullyTransparent ''rgba(255, 255, 255, 0)''"
    "\<not> spec_fullyTransparent ''rgb(0, 0, 0)''"
    by (simp_all add: spec_fullyTransparent_def alphaText_def trim_def isSpace_def)
  have f: "find (\<lambda>a. \<not> spec_fullyTransparent (computedBackgroundColor a))
     (takeWhile (\<lambda>a. nodeId a \<noteq> nodeId (documentElement darkPage))
        (ancestorsFrom (Some clearP))) = Some darkDiv"
    by (simp add: darkPage_def clearP_def darkDiv_def bodyEl_def htmlEl_def t)
  have q: "querySelectorAll textTags darkPage = [darkDiv, clearP]"
    by (simp add: querySelectorAll_def textTags_def darkPage_def clearP_def darkDiv_def
        bodyEl_def htmlEl_def)
  have e: "\<not> offsetParentNull darkDiv" "\<not> offsetParentNull clearP"
    "trim (textContent darkDiv) \<noteq> []" "trim (textContent clearP) \<noteq> []"
    "computedColor darkDiv = ''rgb(255, 255, 255)''"
    "computedColor clearP = ''rgb(255, 255, 255)''"
    "computedBackgroundColor darkDiv = ''rgb(0, 0, 0)''"
    by (simp_all add: offsetParentNull_def clearP_def darkDiv_def trim_def isSpace_def)
  have l: "getLuminance ''rgba(255, 255, 255, 0)'' = 1"
    by (simp add: getLuminance_def parseRgb_def pattern_defs adjust_def)
  have c: "map element (checkContrast darkPage) = [clearP]"
    by (simp add: checkContrast_eq q e g l getLuminance_white getLuminance_black)
  show ?thesis
    by (simp add: g t f e c)
qed

section \<open>Highlighter: properties\<close>

lemma restore_other: "n \<noteq> target t \<Longrightarrow> style (restore t w) n = style w n"
  by (simp add: restore_def)

lemma highlightElement_other:
  "n \<noteq> nodeId el \<Longrightarrow> style (highlightElement el w) n = style w n"
  by (simp add: highlightElement_def Let_def)

lemma highlightElement_captures:
  "timeouts (highlightElement el w) =
     timeouts w @ [\<lparr>fireAt = clock w + 2000, target = nodeId el,
                    savedOutline = outline (style w (nodeId el)),
                    savedBg = backgroundColor (style w (nodeId el))\<rparr>]"
  by (simp add: highlightElement_def Let_def)

text \<open>A single highlight with nothing else pending is undone after two seconds.\<close>

lemma highlight_once_restores:
  "timeouts w = [] \<Longrightarrow> style (elapse 2000 (highlightElement el w)) = style w"
  by (simp add: elapse_def highlightElement_def restore_def Let_def)

text \<open>Taking the element out of the document changes nothing for the callback.\<close>

lemma elapse_removeElement:
  "style (elapse ms (removeElement el w)) = style (elapse ms w)"
proof -
  have f: "style v = style v' \<Longrightarrow> style (fold restore ts v) = style (fold restore ts v')"
    for ts v v'
    by (induction ts arbitrary: v v') (simp_all add: restore_def)
  have c: "clock (removeElement el w) = clock w" "timeouts (removeElement el w) = timeouts w"
    by (simp_all add: removeElement_def)
  show ?thesis
    unfolding elapse_def Let_def c by (rule f) (simp add: removeElement_def)
qed

text \<open>
  C8 at the failing input.  The same element is highlighted twice, one second apart (two
  activations of an entry).  The second call saves the highlight itself as the style to
  restore, so when both callbacks have run the element keeps the red outline and the
  tint, although its inline style was empty before.
\<close>

theorem highlight_twice_stays_highlighted:
  "style emptyWindow (nodeId h3El) = \<lparr>outline = [], backgroundColor = []\<rparr> \<and>
   style (elapse 2000 (highlightElement h3El (elapse 1000 (highlightElement h3El emptyWindow))))
     (nodeId h3El) =
     \<lparr>outline = ''3px solid red'', backgroundColor = ''rgba(255, 0, 0, 0.1)''\<rparr> \<and>
   timeouts (elapse 2000 (highlightElement h3El (elapse 1000 (highlightElement h3El emptyWindow))))
     = []"
  by (simp add: emptyWindow_def h3El_def elapse_def highlightElement_def restore_def Let_def)

section \<open>ReportPanel: properties\<close>

text \<open>
  C9.  For a section with at least one finding there is one entry per finding, in order,
  and the listeners of entry \<open>k\<close> hold the element of finding \<open>k\<close>: a click, and a key press
  of Enter or Space, call \<open>highlightElement\<close> on that element (the key press after
  \<open>preventDefault\<close>); any other key does nothing.
\<close>

theorem createSection_entry_targets:
  assumes "issues \<noteq> []"
  shows "length (issueList (createSection title issues formatIssueFn adviceText)) =
           length issues \<and>
    (\<forall>k<length issues.
       issueElement (issueList (createSection title issues formatIssueFn adviceText) ! k) =
         element (issues ! k) \<and>
       dispatchLi (issueList (createSection title issues formatIssueFn adviceText) ! k) Click w =
         (False, highlightElement (element (issues ! k)) w) \<and>
       dispatchLi (issueList (createSection title issues formatIssueFn adviceText) ! k)
           (Keydown ''Enter'') w =
         (True, highlightElement (element (issues ! k)) w) \<and>
       dispatchLi (issueList (createSection title issues formatIssueFn adviceText) ! k)
           (Keydown '' '') w =
         (True, highlightElement (element (issues ! k)) w) \<and>
       (\<forall>key. key \<noteq> ''Enter'' \<and> key \<noteq> '' '' \<longrightarrow>
          dispatchLi (issueList (createSection title issues formatIssueFn adviceText) ! k)
            (Keydown key) w = (False, w)))"
proof -
  have l: "issueList (createSection title issues formatIssueFn adviceText) =
      map (\<lambda>x. \<lparr>liText = formatIssueFn x, issueElement = element x\<rparr>) issues"
    using assms by (simp add: createSection_def sectionLoop_eq)
  show ?thesis
    by (simp add: l dispatchLi_def)
qed

theorem createSection_entry_targets_witness:
  "exampleAltIssues \<noteq> [] \<and>
   length (issueList (createSection ''Missing Alt Text'' exampleAltIssues src ''Add alt text'')) = 2 \<and>
   scrolledTo (snd (dispatchLi
     (issueList (createSection ''Missing Alt Text'' exampleAltIssues src ''Add alt text'') ! 0)
     Click emptyWindow)) = Some 4 \<and>
   scrolledTo (snd (dispatchLi
     (issueList (createSection ''Missing Alt Text'' exampleAltIssues src ''Add alt text'') ! 1)
     Click emptyWindow)) = Some 5 \<and>
   scrolledTo (snd (dispatchLi
     (issueList (createSection ''Missing Alt Text'' exampleAltIssues src ''Add alt text'') ! 0)
     (Keydown ''Enter'') emptyWindow)) = Some 4 \<and>
   scrolledTo (snd (dispatchLi
     (issueList (createSection ''Missing Alt Text'' exampleAltIssues src ''Add alt text'') ! 1)
     (Keydown ''Tab'') emptyWindow)) = None"
proof -
  have ne: "exampleAltIssues \<noteq> []"
    by (simp add: exampleAltIssues_def)
  have e: "element (exampleAltIssues ! 0) = imgNoSrc"
    "element (exampleAltIssues ! Suc 0) = imgBlankAlt" "length exampleAltIssues = 2"
    by (simp_all add: exampleAltIssues_def)
  have i: "nodeId imgNoSrc = 4" "nodeId imgBlankAlt = 5"
    by (simp_all add: imgNoSrc_def imgBlankAlt_def)
  note T = createSection_entry_targets [OF ne, of "''Missing Alt Text''" src "''Add alt text''"
      emptyWindow]
  note T2 = T [THEN conjunct2, rule_format]
  from T have len:
    "length (issueList (createSection ''Missing Alt Text'' exampleAltIssues src ''Add alt text'')) = 2"
    by (simp add: e)
  from T2 [of 0] have k0: "dispatchLi
       (issueList (createSection ''Missing Alt Text'' exampleAltIssues src ''Add alt text'') ! 0)
       Click emptyWindow = (False, highlightElement imgNoSrc emptyWindow)"
    "dispatchLi
       (issueList (createSection ''Missing Alt Text'' exampleAltIssues src ''Add alt text'') ! 0)
       (Keydown ''Enter'') emptyWindow = (True, highlightElement imgNoSrc emptyWindow)"
    by (simp_all add: e)
  from T2 [of "Suc 0"] have k1: "dispatchLi
       (issueList (createSection ''Missing Alt Text'' exampleAltIssues src ''Add alt text'') ! Suc 0)
       Click emptyWindow = (False, highlightElement imgBlankAlt emptyWindow)"
    "dispatchLi
       (issueList (createSection ''Missing Alt Text'' exampleAltIssues src ''Add alt text'') ! Suc 0)
       (Keydown ''Tab'') emptyWindow = (False, emptyWindow)"
    by (simp_all add: e)
  have s: "scrolledTo (highlightElement el w) = Some (nodeId el)" for el w
    by (simp add: highlightElement_def Let_def)
  have n: "scrolledTo emptyWindow = None"
    by (simp add: emptyWindow_def)
  show ?thesis
    by (simp add: ne len k0 k1 s n i)
qed

text \<open>
  The overlay across invocations: an invocation never removes a listener, and it leaves
  exactly one panel when at most one was present.
\<close>

lemma runEngine_listeners:
  "keydownListeners (runEngine pg) = keydownListeners pg @ [invocations pg]"
  by (simp add: runEngine_def Let_def split: list.splits)

lemma runEngine_panels:
  "length (panels pg) \<le> 1 \<Longrightarrow> panels (runEngine pg) = [invocations pg]"
  by (cases "panels pg") (simp_all add: runEngine_def Let_def split: list.splits)

lemma closeBtnClick_listeners:
  "keydownListeners (closeBtnClick k pg) = keydownListeners pg"
  by (simp add: closeBtnClick_def)

text \<open>
  C1 at the failing input.  The engine runs twice on a fresh page.  One panel is left, but
  both \<open>handleEsc\<close> listeners are registered: the replacement removed the old panel and not
  its listener.  Closing the first panel with its button also leaves its listener
  registered, whereas the Escape key removes the panel together with the listener.
\<close>

theorem second_scan_keeps_old_listener:
  "panels (runEngine (runEngine emptyPage)) = [1] \<and>
   keydownListeners (runEngine (runEngine emptyPage)) = [0, 1] \<and>
   panels (closeBtnClick 0 (runEngine emptyPage)) = [] \<and>
   keydownListeners (closeBtnClick 0 (runEngine emptyPage)) = [0] \<and>
   panels (keydown ''Escape'' (runEngine emptyPage)) = [] \<and>
   keydownListeners (keydown ''Escape'' (runEngine emptyPage)) = []"
  by (simp add: runEngine_def emptyPage_def closeBtnClick_def keydown_def handleEsc_def Let_def)

end
